theory Spec2Isabelle
  imports Complex_Main
begin

section \<open>Values, errors and records\<close>

text \<open>
  A lot is the dictionary that \<open>EveryLot.__init__\<close> builds from one row of the
  \<open>lots\<close> table: column name to value. The values are what sqlite3 hands to Python:
  \<open>None\<close> for NULL, an \<open>int\<close>, a \<open>float\<close> or a \<open>str\<close>. Python floats are
  modelled as reals; rounding and the non-finite floats are outside the model.
\<close>

datatype pyval = PyNone | PyInt int | PyFloat real | PyStr string

datatype error =
    TypeError | ValueError | KeyError | IndexError | ZeroDivisionError
  | OperationalError | RequestException | NotFoundError

text \<open>
  The constructors of \<open>error\<close> are the exception classes the code can meet.
  \<open>NotFoundError\<close> is the class the specification names for a missing row; no line of
  the source raises it, and it is here only so that statements can speak of it.
\<close>

type_synonym lot = "string \<rightharpoonup> pyval"

text \<open>
  Python's \<open>float(x)\<close>: \<open>None\<close> raises TypeError, a number is converted, a string is
  parsed and raises ValueError when it is no float literal. The parser of float literals
  is library code; it is the parameter \<open>P\<close>, \<open>None\<close> meaning that the string does not
  parse.
\<close>

fun py_float :: "(string \<Rightarrow> real option) \<Rightarrow> pyval \<Rightarrow> error + real" where
  "py_float P PyNone = Inl TypeError"
| "py_float P (PyInt n) = Inr (of_int n)"
| "py_float P (PyFloat x) = Inr x"
| "py_float P (PyStr s) = (case P s of None \<Rightarrow> Inl ValueError | Some x \<Rightarrow> Inr x)"

text \<open>Whether a value is a number, and which (0 for a value that is none).\<close>

fun is_number :: "pyval \<Rightarrow> bool" where
  "is_number (PyInt n) = True"
| "is_number (PyFloat x) = True"
| "is_number PyNone = False"
| "is_number (PyStr s) = False"

fun number_value :: "pyval \<Rightarrow> real" where
  "number_value (PyInt n) = of_int n"
| "number_value (PyFloat x) = x"
| "number_value PyNone = 0"
| "number_value (PyStr s) = 0"

section \<open>Camera aiming\<close>

text \<open>
  Lines 80 to 83 of \<open>aim_camera\<close>: \<open>float(self.lot.get('floors', 0)) or 2\<close> inside a
  \<open>try\<close> whose only handler is \<open>except TypeError: floors = 2\<close>. Any other exception
  leaves the function.
\<close>

definition floors_of :: "(string \<Rightarrow> real option) \<Rightarrow> lot \<Rightarrow> error + real" where
  "floors_of P l =
     (case py_float P (case l ''floors'' of None \<Rightarrow> PyInt 0 | Some v \<Rightarrow> v) of
        Inl e \<Rightarrow> (if e = TypeError then Inr 2 else Inl e)
      | Inr x \<Rightarrow> Inr (if x = 0 then 2 else x))"

text \<open>Lines 79 and 85 to 103: the chain of \<open>if\<close> statements, each one assigning over the last.\<close>

definition camera_for :: "real \<Rightarrow> int \<times> int" where
  "camera_for floors =
     (let fov = 65; pitch = 10;
          fov = (if floors = 3 then 72 else fov);
          (fov, pitch) = (if floors = 4 then (76, 15) else (fov, pitch));
          (fov, pitch) = (if floors \<ge> 5 then (81, 20) else (fov, pitch));
          fov = (if floors = 6 then 86 else fov);
          (fov, pitch) = (if floors \<ge> 8 then (90, 25) else (fov, pitch));
          (fov, pitch) = (if floors \<ge> 10 then (90, 30) else (fov, pitch))
      in (fov, pitch))"

definition aim_camera :: "(string \<Rightarrow> real option) \<Rightarrow> lot \<Rightarrow> error + (int \<times> int)" where
  "aim_camera P l =
     (case floors_of P l of Inl e \<Rightarrow> Inl e | Inr floors \<Rightarrow> Inr (camera_for floors))"

section \<open>Loading the record\<close>

text \<open>
  The \<open>lots\<close> table: its column names, as \<open>curs.description\<close> lists them, and its rows
  in storage order, each row a list of values in column order.
\<close>

record table =
  columns :: "string list"
  rows :: "pyval list list"

text \<open>
  \<open>where field = ?\<close> with an integer parameter: NULL is equal to nothing, a stored
  number is compared by value, stored text is never equal to an integer.
\<close>

fun sql_eq_int :: "pyval \<Rightarrow> int \<Rightarrow> bool" where
  "sql_eq_int (PyInt n) k = (n = k)"
| "sql_eq_int (PyFloat x) k = (x = of_int k)"
| "sql_eq_int PyNone k = False"
| "sql_eq_int (PyStr s) k = False"

text \<open>\<open>ORDER BY id ASC\<close>: NULL sorts first, then numbers by value, then text by bytes.\<close>

fun str_less :: "string \<Rightarrow> string \<Rightarrow> bool" where
  "str_less [] [] = False"
| "str_less [] (y # ys) = True"
| "str_less (x # xs) [] = False"
| "str_less (x # xs) (y # ys) =
     ((of_char x :: nat) < of_char y \<or> (x = y \<and> str_less xs ys))"

fun sql_less :: "pyval \<Rightarrow> pyval \<Rightarrow> bool" where
  "sql_less PyNone b = (b \<noteq> PyNone)"
| "sql_less (PyStr s) b = (case b of PyStr t \<Rightarrow> str_less s t | _ \<Rightarrow> False)"
| "sql_less a b =
     (case b of PyNone \<Rightarrow> False | PyStr t \<Rightarrow> True | _ \<Rightarrow> number_value a < number_value b)"

text \<open>The value a row holds in a named column (the first column of that name).\<close>

fun cell :: "string list \<Rightarrow> pyval list \<Rightarrow> string \<Rightarrow> pyval" where
  "cell (c # cs) (v # vs) name = (if c = name then v else cell cs vs name)"
| "cell cs vs name = PyNone"

text \<open>\<open>LIMIT 1\<close> after the ordering: the row of least id, the earliest one among equals.\<close>

fun least_by_id :: "string list \<Rightarrow> pyval list list \<Rightarrow> pyval list option" where
  "least_by_id cs [] = None"
| "least_by_id cs (r # rs) =
     (case least_by_id cs rs of
        None \<Rightarrow> Some r
      | Some m \<Rightarrow> if sql_less (cell cs m ''id'') (cell cs r ''id'') then Some m else Some r)"

text \<open>
  \<open>self.conn.execute(QUERY.format(field), (value,))\<close> followed by \<open>curs.description\<close>
  and \<open>curs.fetchone()\<close>: the statement is rejected when the table lacks the column it
  filters on or the \<open>id\<close> column it orders by; otherwise the column names come back
  together with the first row of the result, \<open>None\<close> when the result is empty.
\<close>

definition execute_query ::
    "table \<Rightarrow> string \<Rightarrow> int \<Rightarrow> error + (string list \<times> pyval list option)" where
  "execute_query t field val =
     (if field \<notin> set (columns t) \<or> ''id'' \<notin> set (columns t) then Inl OperationalError
      else Inr (columns t,
                least_by_id (columns t)
                  (filter (\<lambda>r. sql_eq_int (cell (columns t) r field) val) (rows t))))"

text \<open>
  Lines 66 to 71 of \<open>__init__\<close>: the column to filter on and the value wanted.
  \<open>if id_:\<close> is false for \<open>None\<close> and for 0 (the argument \<open>id_\<close> is \<open>lot_id\<close> here).
\<close>

definition selection :: "int option \<Rightarrow> string \<times> int" where
  "selection lot_id =
     (case lot_id of
        None \<Rightarrow> (''tweeted'', 0)
      | Some i \<Rightarrow> if i \<noteq> 0 then (''id'', i) else (''tweeted'', 0))"

text \<open>
  Lines 73 to 75. \<open>zip(keys, curs.fetchone())\<close> raises TypeError when \<open>fetchone\<close>
  gave \<open>None\<close>; \<open>dict\<close> keeps the last value of a repeated key.
\<close>

definition init_lot :: "table \<Rightarrow> int option \<Rightarrow> error + lot" where
  "init_lot t lot_id =
     (case selection lot_id of (field, val) \<Rightarrow>
        (case execute_query t field val of
           Inl e \<Rightarrow> Inl e
         | Inr (keys, row) \<Rightarrow>
             (case row of
                None \<Rightarrow> Inl TypeError
              | Some vs \<Rightarrow> Inr (map_of (rev (zip keys vs))))))"

text \<open>A row matches the selection when its selected column holds the value wanted.\<close>

definition row_matches :: "table \<Rightarrow> int option \<Rightarrow> pyval list \<Rightarrow> bool" where
  "row_matches t lot_id r =
     (case selection lot_id of (field, val) \<Rightarrow> sql_eq_int (cell (columns t) r field) val)"

section \<open>Map snapshot: overlay paths, bounds and zoom\<close>

text \<open>
  What \<open>shapely.geometry.mapping\<close> returns for the stored geometry: a polygon is the
  list of its rings, the outer ring first and the holes after it; a multi-polygon is a
  list of such polygons; any other geometry is known by the name of its type. A ring is
  a list of (lng, lat) pairs.
\<close>

type_synonym ring = "(real \<times> real) list"

datatype geometry =
    Polygon "ring list"
  | MultiPolygon "ring list list"
  | OtherGeometry string

text \<open>A point of a path is the dictionary \<open>{"lat": lat, "lng": lng}\<close>.\<close>

record point =
  point_lat :: real
  point_lng :: real

text \<open>\<open>[polygon[0] for polygon in parcel["coordinates"]]\<close>; \<open>polygon[0]\<close> of an empty polygon raises.\<close>

fun first_rings :: "ring list list \<Rightarrow> error + ring list" where
  "first_rings [] = Inr []"
| "first_rings (polygon # rest) =
     (case polygon of
        [] \<Rightarrow> Inl IndexError
      | r # _ \<Rightarrow> (case first_rings rest of Inl e \<Rightarrow> Inl e | Inr rs \<Rightarrow> Inr (r # rs)))"

text \<open>Lines 131 to 143 of \<open>get_maps_image\<close>: the list \<open>polygons\<close>, then one path per entry.\<close>

definition static_map_path :: "ring \<Rightarrow> point list" where
  "static_map_path polygon = map (\<lambda>(lng, lat). \<lparr>point_lat = lat, point_lng = lng\<rparr>) polygon"

definition get_maps_image_paths :: "geometry \<Rightarrow> error + point list list" where
  "get_maps_image_paths parcel =
     (case (case parcel of
              Polygon coordinates \<Rightarrow> Inr coordinates
            | MultiPolygon coordinates \<Rightarrow> first_rings coordinates
            | OtherGeometry ty \<Rightarrow> Inl ValueError) of
        Inl e \<Rightarrow> Inl e
      | Inr polygons \<Rightarrow> Inr (map static_map_path polygons))"

text \<open>\<open>scale_bounds\<close>; bounds are (minx, miny, maxx, maxy).\<close>

definition scale_bounds ::
    "real \<times> real \<times> real \<times> real \<Rightarrow> real \<Rightarrow> real \<times> real \<times> real \<times> real" where
  "scale_bounds bounds scale_factor =
     (case bounds of (b0, b1, b2, b3) \<Rightarrow>
        (let center0 = (b2 + b0) / 2; center1 = (b3 + b1) / 2;
             dimensions0 = b2 - b0; dimensions1 = b3 - b1
         in (center0 - dimensions0 * scale_factor / 2,
             center1 - dimensions1 * scale_factor / 2,
             center0 + dimensions0 * scale_factor / 2,
             center1 + dimensions1 * scale_factor / 2)))"

text \<open>
  \<open>latRad\<close> inside \<open>calculate_zoom\<close>. The division raises ZeroDivisionError when the
  sine is 1, and \<open>math.log\<close> raises ValueError on an argument that is not positive.
\<close>

definition latRad :: "real \<Rightarrow> error + real" where
  "latRad lat =
     (let sine = sin (lat * pi / 180) in
      if 1 - sine = 0 then Inl ZeroDivisionError
      else if (1 + sine) / (1 - sine) \<le> 0 then Inl ValueError
      else (let radX2 = ln ((1 + sine) / (1 - sine)) / 2
            in Inr (max (min radX2 pi) (- pi) / 2)))"

definition zoom :: "real \<Rightarrow> real \<Rightarrow> real \<Rightarrow> error + int" where
  "zoom mapPx worldPx fraction =
     (if worldPx = 0 \<or> fraction = 0 then Inl ZeroDivisionError
      else if mapPx / worldPx / fraction \<le> 0 then Inl ValueError
      else Inr \<lfloor>ln (mapPx / worldPx / fraction) / ln 2\<rfloor>)"

text \<open>\<open>calculate_zoom\<close>; \<open>mapDim\<close> is (width, height) and the world is 256 by 256.\<close>

definition calculate_zoom :: "real \<times> real \<times> real \<times> real \<Rightarrow> real \<times> real \<Rightarrow> error + int" where
  "calculate_zoom bounds mapDim =
     (case bounds of (b0, b1, b2, b3) \<Rightarrow>
        (case latRad b3 of Inl e \<Rightarrow> Inl e | Inr r3 \<Rightarrow>
        (case latRad b1 of Inl e \<Rightarrow> Inl e | Inr r1 \<Rightarrow>
           (let latFraction = (r3 - r1) / pi;
                lngDiff = b2 - b0;
                lngFraction = (if lngDiff < 0 then lngDiff + 360 else lngDiff) / 360
            in case zoom (snd mapDim) 256 latFraction of Inl e \<Rightarrow> Inl e | Inr latZoom \<Rightarrow>
              (case zoom (fst mapDim) 256 lngFraction of Inl e \<Rightarrow> Inl e | Inr lngZoom \<Rightarrow>
                 Inr (min (min latZoom lngZoom) 20))))))"

section \<open>Street-level location\<close>

text \<open>
  The search format is taken in parsed form: literal text and replacement fields that
  name a column, as in the default \<open>'{address}, {city} {state}'\<close>. Formatting goes from
  left to right and raises KeyError at the first field the record does not have. How a
  value is printed is Python's \<open>format(v, '')\<close>, the parameter \<open>fmt\<close> (it prints
  \<open>None\<close> too, so a NULL column does not raise).
\<close>

datatype segment = Lit string | Field string

text \<open>
  An instance of \<open>fmt\<close> for the examples: \<open>None\<close>, integers and strings print as
  Python prints them; a float prints as its integer part followed by \<open>.0\<close>, which is
  Python's output for whole floats of ordinary size only.
\<close>

fun str_nat :: "nat \<Rightarrow> string" where
  "str_nat n =
     (if n < 10 then [char_of (48 + n)]
      else str_nat (n div 10) @ [char_of (48 + n mod 10)])"

definition str_int :: "int \<Rightarrow> string" where
  "str_int i = (if i < 0 then CHR ''-'' # str_nat (nat (- i)) else str_nat (nat i))"

fun print_value :: "pyval \<Rightarrow> string" where
  "print_value PyNone = ''None''"
| "print_value (PyInt n) = str_int n"
| "print_value (PyFloat x) = str_int \<lfloor>x\<rfloor> @ ''.0''"
| "print_value (PyStr s) = s"

definition default_search_format :: "segment list" where
  "default_search_format =
     [Field ''address'', Lit '', '', Field ''city'', Lit '' '', Field ''state'']"

fun format_str :: "(pyval \<Rightarrow> string) \<Rightarrow> segment list \<Rightarrow> lot \<Rightarrow> error + string" where
  "format_str fmt [] l = Inr []"
| "format_str fmt (Lit s # segs) l =
     (case format_str fmt segs l of Inl e \<Rightarrow> Inl e | Inr r \<Rightarrow> Inr (s @ r))"
| "format_str fmt (Field k # segs) l =
     (case l k of
        None \<Rightarrow> Inl KeyError
      | Some v \<Rightarrow> (case format_str fmt segs l of Inl e \<Rightarrow> Inl e | Inr r \<Rightarrow> Inr (fmt v @ r)))"

text \<open>\<open>'{},{}'.format(self.lot['lat'], self.lot['lon'])\<close>: both lookups can raise KeyError.\<close>

definition latlon_string :: "(pyval \<Rightarrow> string) \<Rightarrow> lot \<Rightarrow> error + string" where
  "latlon_string fmt l =
     (case l ''lat'' of
        None \<Rightarrow> Inl KeyError
      | Some la \<Rightarrow>
          (case l ''lon'' of
             None \<Rightarrow> Inl KeyError
           | Some lo \<Rightarrow> Inr (fmt la @ '','' @ fmt lo)))"

text \<open>A column value plus or minus a float: numbers only, anything else raises TypeError.\<close>

fun py_add :: "pyval \<Rightarrow> real \<Rightarrow> error + real" where
  "py_add (PyInt n) d = Inr (of_int n + d)"
| "py_add (PyFloat x) d = Inr (x + d)"
| "py_add PyNone d = Inl TypeError"
| "py_add (PyStr s) d = Inl TypeError"

definition lot_plus :: "lot \<Rightarrow> string \<Rightarrow> real \<Rightarrow> error + real" where
  "lot_plus l k d = (case l k of None \<Rightarrow> Inl KeyError | Some v \<Rightarrow> py_add v d)"

text \<open>
  Lines 214 to 216: \<open>minpt\<close> and \<open>maxpt\<close>, each (lat, lon), evaluated in the order
  written; \<open>x - d\<close> is \<open>x + (- d)\<close>.
\<close>

definition comfort_zone :: "lot \<Rightarrow> error + ((real \<times> real) \<times> (real \<times> real))" where
  "comfort_zone l =
     (let d = 0.007 in
      case lot_plus l ''lat'' (- d) of Inl e \<Rightarrow> Inl e | Inr min0 \<Rightarrow>
     (case lot_plus l ''lon'' (- d) of Inl e \<Rightarrow> Inl e | Inr min1 \<Rightarrow>
     (case lot_plus l ''lat'' d of Inl e \<Rightarrow> Inl e | Inr max0 \<Rightarrow>
     (case lot_plus l ''lon'' d of Inl e \<Rightarrow> Inl e | Inr max1 \<Rightarrow>
        Inr ((min0, min1), (max0, max1))))))"

text \<open>
  The geocoder's answer: \<open>requests.get\<close> either raises or gives a response with a
  status code and a body; \<open>r.json()\<close> raises ValueError on a body that is no JSON
  (\<open>None\<close> here) and gives the decoded value otherwise.
\<close>

datatype json =
    JNull | JBool bool | JNum real | JStr string
  | JArr "json list" | JObj "(string \<times> json) list"

record response =
  status_code :: int
  body :: "json option"

text \<open>Subscripting a decoded value with a string key, and with the index 0.\<close>

fun getitem_key :: "json \<Rightarrow> string \<Rightarrow> error + json" where
  "getitem_key (JObj kvs) k =
     (case map_of (rev kvs) k of None \<Rightarrow> Inl KeyError | Some v \<Rightarrow> Inr v)"
| "getitem_key j k = Inl TypeError"

fun getitem_0 :: "json \<Rightarrow> error + json" where
  "getitem_0 (JArr xs) = (case xs of [] \<Rightarrow> Inl IndexError | x # _ \<Rightarrow> Inr x)"
| "getitem_0 (JStr s) = (case s of [] \<Rightarrow> Inl IndexError | c # _ \<Rightarrow> Inr (JStr [c]))"
| "getitem_0 (JObj kvs) = Inl KeyError"
| "getitem_0 j = Inl TypeError"

text \<open>A decoded value as an operand of \<open><\<close> or \<open>>\<close> against a float.\<close>

fun json_number :: "json \<Rightarrow> error + real" where
  "json_number (JNum x) = Inr x"
| "json_number (JBool b) = Inr (if b then 1 else 0)"
| "json_number j = Inl TypeError"

definition loc_number :: "json \<Rightarrow> string \<Rightarrow> error + real" where
  "loc_number loc k = (case getitem_key loc k of Inl e \<Rightarrow> Inl e | Inr v \<Rightarrow> json_number v)"

text \<open>Lines 233 to 236: the status check and \<open>r.json()['results'][0]['geometry']['location']\<close>.\<close>

definition response_location :: "response \<Rightarrow> error + json" where
  "response_location r =
     (if status_code r \<noteq> 200 then Inl ValueError
      else case body r of None \<Rightarrow> Inl ValueError | Some j \<Rightarrow>
       (case getitem_key j ''results'' of Inl e \<Rightarrow> Inl e | Inr results \<Rightarrow>
       (case getitem_0 results of Inl e \<Rightarrow> Inl e | Inr result \<Rightarrow>
       (case getitem_key result ''geometry'' of Inl e \<Rightarrow> Inl e | Inr g \<Rightarrow>
          getitem_key g ''location''))))"

text \<open>
  Lines 239 to 244: the four comparisons are all evaluated, in the order written, before
  \<open>any\<close> looks at them.
\<close>

definition outside_comfort_zone ::
    "json \<Rightarrow> (real \<times> real) \<Rightarrow> (real \<times> real) \<Rightarrow> error + bool" where
  "outside_comfort_zone loc minpt maxpt =
     (case loc_number loc ''lng'' of Inl e \<Rightarrow> Inl e | Inr lng1 \<Rightarrow>
     (case loc_number loc ''lng'' of Inl e \<Rightarrow> Inl e | Inr lng2 \<Rightarrow>
     (case loc_number loc ''lat'' of Inl e \<Rightarrow> Inl e | Inr lat1 \<Rightarrow>
     (case loc_number loc ''lat'' of Inl e \<Rightarrow> Inl e | Inr lat2 \<Rightarrow>
        Inr (lng1 < snd minpt \<or> lng2 > snd maxpt \<or> lat1 > fst maxpt \<or> lat2 < fst minpt)))))"

text \<open>
  Lines 229 to 250, the body of the last \<open>try\<close>: the address when the geocoder confirms
  it, an exception otherwise.
\<close>

definition geocode_confirm ::
    "(string \<Rightarrow> string \<Rightarrow> error + response) \<Rightarrow> string \<Rightarrow> string \<Rightarrow>
     (real \<times> real) \<Rightarrow> (real \<times> real) \<Rightarrow> error + string" where
  "geocode_confirm requests_get address key minpt maxpt =
     (case requests_get address key of Inl e \<Rightarrow> Inl e | Inr r \<Rightarrow>
     (case response_location r of Inl e \<Rightarrow> Inl e | Inr loc \<Rightarrow>
     (case outside_comfort_zone loc minpt maxpt of Inl e \<Rightarrow> Inl e | Inr out \<Rightarrow>
        if out then Inl ValueError else Inr address)))"

text \<open>
  \<open>streetviewable_location\<close>. The result is paired with the geocoding requests issued,
  each an (address, key) pair. \<open>except KeyError\<close> catches KeyError only;
  \<open>except Exception\<close> catches every error of the model.
\<close>

definition streetviewable_location ::
    "(pyval \<Rightarrow> string) \<Rightarrow> (string \<Rightarrow> string \<Rightarrow> error + response) \<Rightarrow> segment list \<Rightarrow>
     lot \<Rightarrow> string \<Rightarrow> (error + string) \<times> (string \<times> string) list" where
  "streetviewable_location fmt requests_get search_format l key =
     (case format_str fmt search_format l of
        Inl e \<Rightarrow> (if e = KeyError then (latlon_string fmt l, []) else (Inl e, []))
      | Inr address \<Rightarrow>
          (case comfort_zone l of
             Inl e \<Rightarrow> (if e = KeyError then (Inr address, []) else (Inl e, []))
           | Inr (minpt, maxpt) \<Rightarrow>
               (case geocode_confirm requests_get address key minpt maxpt of
                  Inr a \<Rightarrow> (Inr a, [(address, key)])
                | Inl e \<Rightarrow> (latlon_string fmt l, [(address, key)]))))"

section \<open>Example data\<close>

text \<open>A lot with an address and coordinates, the same lot without coordinates, and geocoder answers.\<close>

definition example_lot :: lot where
  "example_lot =
     [''id'' \<mapsto> PyInt 5, ''address'' \<mapsto> PyStr ''1 Main St'', ''city'' \<mapsto> PyStr ''Springfield'',
      ''state'' \<mapsto> PyStr ''IL'', ''lat'' \<mapsto> PyInt 40, ''lon'' \<mapsto> PyInt (- 73)]"

definition example_lot_no_coords :: lot where
  "example_lot_no_coords =
     [''id'' \<mapsto> PyInt 5, ''address'' \<mapsto> PyStr ''1 Main St'', ''city'' \<mapsto> PyStr ''Springfield'',
      ''state'' \<mapsto> PyStr ''IL'']"

definition geocoded_at :: "real \<Rightarrow> real \<Rightarrow> response" where
  "geocoded_at glat glng =
     \<lparr>status_code = 200,
      body = Some (JObj [(''results'',
               JArr [JObj [(''geometry'',
                 JObj [(''location'', JObj [(''lat'', JNum glat), (''lng'', JNum glng)])])]])])\<rparr>"

definition example_table :: table where
  "example_table =
     \<lparr>columns = [''id'', ''address'', ''tweeted''],
      rows = [[PyInt 1, PyStr ''1 Main St'', PyInt 99]]\<rparr>"

text \<open>
  A table whose \<open>lat\<close> and \<open>lon\<close> columns are NULL in its only row, and the record
  \<open>__init__\<close> loads from it: every column is a key, the coordinates hold \<open>None\<close>.
\<close>

definition null_coords_table :: table where
  "null_coords_table =
     \<lparr>columns = [''id'', ''address'', ''city'', ''state'', ''lat'', ''lon'', ''tweeted''],
      rows = [[PyInt 5, PyStr ''1 Main St'', PyStr ''Springfield'', PyStr ''IL'',
               PyNone, PyNone, PyInt 0]]\<rparr>"

definition null_coords_lot :: lot where
  "null_coords_lot =
     [''id'' \<mapsto> PyInt 5, ''address'' \<mapsto> PyStr ''1 Main St'', ''city'' \<mapsto> PyStr ''Springfield'',
      ''state'' \<mapsto> PyStr ''IL'', ''lat'' \<mapsto> PyNone, ''lon'' \<mapsto> PyNone, ''tweeted'' \<mapsto> PyInt 0]"

section \<open>Camera aiming: results\<close>

lemma camera_for_cases:
  "camera_for f =
     (if f \<ge> 10 then (90, 30) else if f \<ge> 8 then (90, 25) else if f = 6 then (86, 20)
      else if f \<ge> 5 then (81, 20) else if f = 4 then (76, 15) else if f = 3 then (72, 10)
      else (65, 10))"
  by (simp add: camera_for_def)

text \<open>
  C1. Whatever numeric value \<open>f\<close> the floor count converts to, and also when the record
  has no floor count, \<open>aim_camera\<close> returns the pair of the table: (65,10) below 3,
  (72,10) at 3, (76,15) at 4, (81,20) from 5 up to but excluding 6 and at 7, (86,20) at 6,
  (90,25) from 8 up to but excluding 10, (90,30) from 10 on.
\<close>

theorem aim_camera_table:
  "(l ''floors'' = None \<longrightarrow> aim_camera P l = Inr (65, 10)) \<and>
   (l ''floors'' = Some v \<and> py_float P v = Inr f \<longrightarrow>
      (f < 3 \<longrightarrow> aim_camera P l = Inr (65, 10)) \<and>
      (f = 3 \<longrightarrow> aim_camera P l = Inr (72, 10)) \<and>
      (f = 4 \<longrightarrow> aim_camera P l = Inr (76, 15)) \<and>
      (5 \<le> f \<and> f < 6 \<longrightarrow> aim_camera P l = Inr (81, 20)) \<and>
      (f = 6 \<longrightarrow> aim_camera P l = Inr (86, 20)) \<and>
      (f = 7 \<longrightarrow> aim_camera P l = Inr (81, 20)) \<and>
      (8 \<le> f \<and> f < 10 \<longrightarrow> aim_camera P l = Inr (90, 25)) \<and>
      (10 \<le> f \<longrightarrow> aim_camera P l = Inr (90, 30)))"
  by (auto simp add: aim_camera_def floors_of_def camera_for_cases)

theorem aim_camera_table_witness:
  "aim_camera (\<lambda>s. None) Map.empty = Inr (65, 10) \<and>
   aim_camera (\<lambda>s. None) [''floors'' \<mapsto> PyInt 0] = Inr (65, 10) \<and>
   aim_camera (\<lambda>s. None) [''floors'' \<mapsto> PyInt 2] = Inr (65, 10) \<and>
   aim_camera (\<lambda>s. None) [''floors'' \<mapsto> PyInt 3] = Inr (72, 10) \<and>
   aim_camera (\<lambda>s. None) [''floors'' \<mapsto> PyInt 4] = Inr (76, 15) \<and>
   aim_camera (\<lambda>s. None) [''floors'' \<mapsto> PyInt 5] = Inr (81, 20) \<and>
   aim_camera (\<lambda>s. None) [''floors'' \<mapsto> PyFloat 5.5] = Inr (81, 20) \<and>
   aim_camera (\<lambda>s. None) [''floors'' \<mapsto> PyInt 6] = Inr (86, 20) \<and>
   aim_camera (\<lambda>s. None) [''floors'' \<mapsto> PyInt 7] = Inr (81, 20) \<and>
   aim_camera (\<lambda>s. None) [''floors'' \<mapsto> PyInt 8] = Inr (90, 25) \<and>
   aim_camera (\<lambda>s. None) [''floors'' \<mapsto> PyInt 9] = Inr (90, 25) \<and>
   aim_camera (\<lambda>s. None) [''floors'' \<mapsto> PyInt 10] = Inr (90, 30) \<and>
   aim_camera (\<lambda>s. None) [''floors'' \<mapsto> PyFloat 40] = Inr (90, 30)"
  using aim_camera_table [of Map.empty "\<lambda>s. None"]
    aim_camera_table [of "[''floors'' \<mapsto> PyInt 0]" "\<lambda>s. None" "PyInt 0" 0]
    aim_camera_table [of "[''floors'' \<mapsto> PyInt 2]" "\<lambda>s. None" "PyInt 2" 2]
    aim_camera_table [of "[''floors'' \<mapsto> PyInt 3]" "\<lambda>s. None" "PyInt 3" 3]
    aim_camera_table [of "[''floors'' \<mapsto> PyInt 4]" "\<lambda>s. None" "PyInt 4" 4]
    aim_camera_table [of "[''floors'' \<mapsto> PyInt 5]" "\<lambda>s. None" "PyInt 5" 5]
    aim_camera_table [of "[''floors'' \<mapsto> PyFloat 5.5]" "\<lambda>s. None" "PyFloat 5.5" "5.5"]
    aim_camera_table [of "[''floors'' \<mapsto> PyInt 6]" "\<lambda>s. None" "PyInt 6" 6]
    aim_camera_table [of "[''floors'' \<mapsto> PyInt 7]" "\<lambda>s. None" "PyInt 7" 7]
    aim_camera_table [of "[''floors'' \<mapsto> PyInt 8]" "\<lambda>s. None" "PyInt 8" 8]
    aim_camera_table [of "[''floors'' \<mapsto> PyInt 9]" "\<lambda>s. None" "PyInt 9" 9]
    aim_camera_table [of "[''floors'' \<mapsto> PyInt 10]" "\<lambda>s. None" "PyInt 10" 10]
    aim_camera_table [of "[''floors'' \<mapsto> PyFloat 40]" "\<lambda>s. None" "PyFloat 40" 40]
  by simp

text \<open>
  Between the rows of the table the chain gives the pair of the row below: 3.5 floors
  frame like 2, and 6.5 like 5.
\<close>

lemma aim_camera_between_rows:
  "aim_camera P [''floors'' \<mapsto> PyFloat 3.5] = Inr (65, 10)"
  "aim_camera P [''floors'' \<mapsto> PyFloat 6.5] = Inr (81, 20)"
  by (simp_all add: aim_camera_def floors_of_def camera_for_cases)

text \<open>A NULL floor count raises TypeError inside the \<open>try\<close> and is taken as 2.\<close>

lemma aim_camera_null: "aim_camera P (l(''floors'' \<mapsto> PyNone)) = Inr (65, 10)"
  by (simp add: aim_camera_def floors_of_def camera_for_cases)

text \<open>
  C9. A floor count that is a string and does not parse as a number is not taken as 2:
  \<open>float\<close> raises ValueError, the handler catches TypeError only, and \<open>aim_camera\<close>
  raises.
\<close>

theorem aim_camera_unparsable_raises:
  "P s = None \<Longrightarrow> aim_camera P (l(''floors'' \<mapsto> PyStr s)) = Inl ValueError"
  by (simp add: aim_camera_def floors_of_def)

theorem aim_camera_unparsable_raises_witness:
  "(\<lambda>s. if s = ''3'' then Some 3 else None) ''unknown'' = None \<and>
   aim_camera (\<lambda>s. if s = ''3'' then Some 3 else None) [''floors'' \<mapsto> PyStr ''unknown'']
     = Inl ValueError"
  using aim_camera_unparsable_raises
          [of "\<lambda>s. if s = ''3'' then Some 3 else None" "''unknown''" Map.empty]
  by simp

section \<open>Map snapshot: results\<close>

text \<open>
  C8. \<open>scale_bounds\<close> keeps the centre of the box and multiplies its width and its height
  by the scale factor; the box (0,0,2,2) scaled by 3 is (-2,-2,4,4).
\<close>

theorem scale_bounds_center_and_size:
  "(case scale_bounds (minX, minY, maxX, maxY) s of (a, b, c, d) \<Rightarrow>
      (a + c) / 2 = (minX + maxX) / 2 \<and> (b + d) / 2 = (minY + maxY) / 2 \<and>
      c - a = s * (maxX - minX) \<and> d - b = s * (maxY - minY)) \<and>
   scale_bounds (0, 0, 2, 2) 3 = (-2, -2, 4, 4)"
  by (simp add: scale_bounds_def field_simps)

text \<open>For a multi-polygon the paths are those of the first ring of each polygon.\<close>

lemma first_rings_outer:
  "first_rings polys = Inr rs \<Longrightarrow> rs = map hd polys \<and> (\<forall>p \<in> set polys. p \<noteq> [])"
  by (induction polys arbitrary: rs) (auto split: list.splits sum.splits)

lemma multipolygon_paths_outer:
  "get_maps_image_paths (MultiPolygon polys) = Inr paths \<Longrightarrow>
   paths = map (\<lambda>p. static_map_path (hd p)) polys"
  by (auto simp add: get_maps_image_paths_def split: sum.splits dest: first_rings_outer)

text \<open>
  C2. For a single polygon the list \<open>polygons\<close> is the whole ring list, so a hole becomes
  a path of its own: here the square from (0,0) to (4,4) with a triangular hole, whose
  corners (1,1), (2,1), (2,2) all appear in the second path.
\<close>

theorem polygon_hole_in_paths:
  "get_maps_image_paths
     (Polygon [[(0, 0), (4, 0), (4, 4), (0, 4), (0, 0)], [(1, 1), (2, 1), (2, 2), (1, 1)]])
   = Inr [[\<lparr>point_lat = 0, point_lng = 0\<rparr>, \<lparr>point_lat = 0, point_lng = 4\<rparr>,
           \<lparr>point_lat = 4, point_lng = 4\<rparr>, \<lparr>point_lat = 4, point_lng = 0\<rparr>,
           \<lparr>point_lat = 0, point_lng = 0\<rparr>],
          [\<lparr>point_lat = 1, point_lng = 1\<rparr>, \<lparr>point_lat = 1, point_lng = 2\<rparr>,
           \<lparr>point_lat = 2, point_lng = 2\<rparr>, \<lparr>point_lat = 1, point_lng = 1\<rparr>]]"
  by (simp add: get_maps_image_paths_def static_map_path_def)

section \<open>Loading the record: results\<close>

lemma selection_field: "fst (selection lot_id) = ''id'' \<or> fst (selection lot_id) = ''tweeted''"
  by (simp add: selection_def split: option.splits)

text \<open>No input makes \<open>init_lot\<close> fail with the error the specification names.\<close>

lemma init_lot_never_not_found: "init_lot t lot_id \<noteq> Inl NotFoundError"
  by (auto simp add: init_lot_def execute_query_def split: option.splits prod.splits sum.splits if_splits)

text \<open>With rows to choose from, the unpublished row of least id is loaded.\<close>

lemma init_lot_least_unpublished:
  "init_lot \<lparr>columns = [''id'', ''address'', ''tweeted''],
             rows = [[PyInt 3, PyStr ''c'', PyInt 0], [PyInt 1, PyStr ''a'', PyInt 99],
                     [PyInt 2, PyStr ''b'', PyInt 0]]\<rparr> None
   = Inr [''id'' \<mapsto> PyInt 2, ''address'' \<mapsto> PyStr ''b'', ''tweeted'' \<mapsto> PyInt 0]"
  by (auto simp add: init_lot_def execute_query_def selection_def)

text \<open>
  C3, as the code has it. When the table has the columns \<open>id\<close> and \<open>tweeted\<close> and no row
  matches the selection, loading fails with TypeError: \<open>fetchone\<close> gives \<open>None\<close>
  and \<open>zip\<close> cannot iterate over it.
\<close>

theorem init_lot_no_match:
  assumes "''id'' \<in> set (columns t)" "''tweeted'' \<in> set (columns t)"
    and "\<forall>r \<in> set (rows t). \<not> row_matches t lot_id r"
  shows "init_lot t lot_id = Inl TypeError"
proof -
  obtain field val where sel: "selection lot_id = (field, val)"
    by (cases "selection lot_id")
  have "filter (\<lambda>r. sql_eq_int (cell (columns t) r field) val) (rows t) = []"
    using assms(3) sel by (simp add: filter_empty_conv row_matches_def)
  moreover have "field \<in> set (columns t)"
    using selection_field [of lot_id] sel assms(1,2) by auto
  ultimately show ?thesis
    using assms(1) sel by (simp add: init_lot_def execute_query_def)
qed

theorem init_lot_no_match_witness:
  "\<not> row_matches example_table (Some 5) [PyInt 1, PyStr ''1 Main St'', PyInt 99] \<and>
   init_lot example_table (Some 5) = Inl TypeError"
  using init_lot_no_match [of example_table "Some 5"]
  by (simp add: example_table_def row_matches_def selection_def)

text \<open>
  C3, as stated, fails: the only row of the example table is published, nothing matches
  the selection of the next unpublished row, and the error is TypeError, not NotFoundError.
\<close>

theorem init_lot_not_found_counterexample:
  "\<not> row_matches example_table None [PyInt 1, PyStr ''1 Main St'', PyInt 99] \<and>
   init_lot example_table None = Inl TypeError \<and>
   init_lot example_table None \<noteq> Inl NotFoundError"
  by (simp add: example_table_def row_matches_def selection_def init_lot_def execute_query_def)

section \<open>Street-level location: results\<close>

lemma format_str_missing:
  "Field k \<in> set sf \<Longrightarrow> l k = None \<Longrightarrow> format_str fmt sf l = Inl KeyError"
proof (induction sf)
  case Nil
  then show ?case by simp
next
  case (Cons seg sf)
  then show ?case by (cases seg) (auto split: option.splits sum.splits)
qed

lemma format_str_error: "format_str fmt sf l = Inl e \<Longrightarrow> e = KeyError"
proof (induction sf)
  case Nil
  then show ?case by simp
next
  case (Cons seg sf)
  then show ?case by (cases seg) (auto split: option.splits sum.splits)
qed

lemma py_add_number: "is_number v \<Longrightarrow> py_add v d = Inr (number_value v + d)"
  by (cases v) simp_all

lemma comfort_zone_numbers:
  assumes "l ''lat'' = Some la" "l ''lon'' = Some lo" "is_number la" "is_number lo"
  shows "comfort_zone l = Inr ((number_value la - 0.007, number_value lo - 0.007),
                               (number_value la + 0.007, number_value lo + 0.007))"
  using assms by (simp add: comfort_zone_def lot_plus_def py_add_number Let_def)

lemma fallback_on_exception:
  assumes "format_str fmt sf l = Inr address"
    and "l ''lat'' = Some la" "l ''lon'' = Some lo"
    and "comfort_zone l = Inr (minpt, maxpt)"
    and "geocode_confirm requests_get address key minpt maxpt = Inl e"
  shows "streetviewable_location fmt requests_get sf l key
           = (Inr (fmt la @ '','' @ fmt lo), [(address, key)])"
  using assms by (simp add: streetviewable_location_def latlon_string_def)

lemma address_on_confirmation:
  assumes "format_str fmt sf l = Inr address"
    and "comfort_zone l = Inr (minpt, maxpt)"
    and "geocode_confirm requests_get address key minpt maxpt = Inr a"
  shows "streetviewable_location fmt requests_get sf l key = (Inr address, [(address, key)])"
  using assms by (auto simp add: streetviewable_location_def geocode_confirm_def split: sum.splits if_splits)

lemma str_int_examples: "str_int 40 = ''40''" "str_int (- 73) = ''-73''"
  by code_simp+

lemma example_lot_address:
  "format_str print_value default_search_format example_lot = Inr ''1 Main St, Springfield IL''"
  "format_str print_value default_search_format example_lot_no_coords
     = Inr ''1 Main St, Springfield IL''"
  by (simp_all add: default_search_format_def example_lot_def example_lot_no_coords_def)

lemma geocoded_at_location:
  "response_location (geocoded_at glat glng)
     = Inr (JObj [(''lat'', JNum glat), (''lng'', JNum glng)])"
  by (simp add: response_location_def geocoded_at_def)

lemma location_numbers:
  "loc_number (JObj [(''lat'', JNum glat), (''lng'', JNum glng)]) ''lat'' = Inr glat"
  "loc_number (JObj [(''lat'', JNum glat), (''lng'', JNum glng)]) ''lng'' = Inr glng"
  by (simp_all add: loc_number_def)

text \<open>
  C4. The record has an address that formats and numeric \<open>lat\<close> and \<open>lon\<close>. If the
  request raises, or the response status is not 200, or the location in the response
  lies outside the box of 0.007 degrees around (lat, lon), the result is the string
  \<open>lat,lon\<close> of the record's own coordinates, after one request, and nothing is raised.
\<close>

theorem geocode_failure_falls_back:
  assumes "format_str fmt sf l = Inr address"
    and "l ''lat'' = Some la" "l ''lon'' = Some lo" "is_number la" "is_number lo"
    and "(\<exists>e. requests_get address key = Inl e) \<or>
         (\<exists>r. requests_get address key = Inr r \<and> status_code r \<noteq> 200) \<or>
         (\<exists>r loc glat glng. requests_get address key = Inr r \<and> response_location r = Inr loc \<and>
            loc_number loc ''lat'' = Inr glat \<and> loc_number loc ''lng'' = Inr glng \<and>
            (glng < number_value lo - 0.007 \<or> glng > number_value lo + 0.007 \<or>
             glat > number_value la + 0.007 \<or> glat < number_value la - 0.007))"
  shows "streetviewable_location fmt requests_get sf l key
           = (Inr (fmt la @ '','' @ fmt lo), [(address, key)])"
proof -
  let ?minpt = "(number_value la - 0.007, number_value lo - 0.007)"
  let ?maxpt = "(number_value la + 0.007, number_value lo + 0.007)"
  have box: "comfort_zone l = Inr (?minpt, ?maxpt)"
    using assms(2-5) by (rule comfort_zone_numbers)
  have "\<exists>e. geocode_confirm requests_get address key ?minpt ?maxpt = Inl e"
    using assms(6)
    by (auto simp add: geocode_confirm_def response_location_def outside_comfort_zone_def)
  then obtain e where "geocode_confirm requests_get address key ?minpt ?maxpt = Inl e" ..
  with assms(1-3) box show ?thesis by (rule fallback_on_exception)
qed

theorem geocode_failure_falls_back_witness:
  "streetviewable_location print_value (\<lambda>a k. Inl RequestException)
      default_search_format example_lot ''key''
     = (Inr ''40,-73'', [(''1 Main St, Springfield IL'', ''key'')]) \<and>
   streetviewable_location print_value (\<lambda>a k. Inr \<lparr>status_code = 500, body = None\<rparr>)
      default_search_format example_lot ''key''
     = (Inr ''40,-73'', [(''1 Main St, Springfield IL'', ''key'')]) \<and>
   streetviewable_location print_value (\<lambda>a k. Inr (geocoded_at 41 (- 73)))
      default_search_format example_lot ''key''
     = (Inr ''40,-73'', [(''1 Main St, Springfield IL'', ''key'')])"
  using geocode_failure_falls_back [of print_value default_search_format example_lot
          "''1 Main St, Springfield IL''" "PyInt 40" "PyInt (- 73)"
          "\<lambda>a k. Inl RequestException" "''key''"]
        geocode_failure_falls_back [of print_value default_search_format example_lot
          "''1 Main St, Springfield IL''" "PyInt 40" "PyInt (- 73)"
          "\<lambda>a k. Inr \<lparr>status_code = 500, body = None\<rparr>" "''key''"]
        geocode_failure_falls_back [of print_value default_search_format example_lot
          "''1 Main St, Springfield IL''" "PyInt 40" "PyInt (- 73)"
          "\<lambda>a k. Inr (geocoded_at 41 (- 73))" "''key''"]
  by (simp add: example_lot_address str_int_examples geocoded_at_location location_numbers)
     (simp add: example_lot_def)

text \<open>
  C10. The comparisons against the box are strict, so a location on an edge or a corner
  of the box (any location of the closed box) confirms the address: the result is the
  formatted address.
\<close>

theorem box_edge_is_inside:
  assumes "format_str fmt sf l = Inr address"
    and "l ''lat'' = Some la" "l ''lon'' = Some lo" "is_number la" "is_number lo"
    and "requests_get address key = Inr r" "response_location r = Inr loc"
    and "loc_number loc ''lat'' = Inr glat" "loc_number loc ''lng'' = Inr glng"
    and "number_value la - 0.007 \<le> glat" "glat \<le> number_value la + 0.007"
    and "number_value lo - 0.007 \<le> glng" "glng \<le> number_value lo + 0.007"
  shows "streetviewable_location fmt requests_get sf l key = (Inr address, [(address, key)])"
proof -
  let ?minpt = "(number_value la - 0.007, number_value lo - 0.007)"
  let ?maxpt = "(number_value la + 0.007, number_value lo + 0.007)"
  have box: "comfort_zone l = Inr (?minpt, ?maxpt)"
    using assms(2-5) by (rule comfort_zone_numbers)
  have "geocode_confirm requests_get address key ?minpt ?maxpt = Inr address"
    using assms(6-13) by (simp add: geocode_confirm_def outside_comfort_zone_def)
  with assms(1) box show ?thesis by (rule address_on_confirmation)
qed

theorem box_edge_is_inside_witness:
  "streetviewable_location print_value (\<lambda>a k. Inr (geocoded_at 40.007 (- 73)))
      default_search_format example_lot ''key''
     = (Inr ''1 Main St, Springfield IL'', [(''1 Main St, Springfield IL'', ''key'')])"
  using box_edge_is_inside [of print_value default_search_format example_lot
          "''1 Main St, Springfield IL''" "PyInt 40" "PyInt (- 73)"
          "\<lambda>a k. Inr (geocoded_at 40.007 (- 73))" "''key''" "geocoded_at 40.007 (- 73)"
          "JObj [(''lat'', JNum 40.007), (''lng'', JNum (- 73))]" "40.007" "- 73"]
  by (simp add: example_lot_address geocoded_at_location location_numbers)
     (simp add: example_lot_def)

text \<open>
  C5, as the code has it. When a field of the search format is missing from the record,
  no request is made; the result is the string \<open>lat,lon\<close> when the record has both
  \<open>lat\<close> and \<open>lon\<close>, and KeyError is raised when it has no \<open>lat\<close> or no \<open>lon\<close> either.
\<close>

theorem missing_field_falls_back:
  assumes "Field k \<in> set sf" "l k = None"
  shows "(l ''lat'' = Some la \<and> l ''lon'' = Some lo \<longrightarrow>
            streetviewable_location fmt requests_get sf l key = (Inr (fmt la @ '','' @ fmt lo), [])) \<and>
         (l ''lat'' = None \<or> l ''lon'' = None \<longrightarrow>
            streetviewable_location fmt requests_get sf l key = (Inl KeyError, []))"
  using format_str_missing [of k sf l fmt] assms
  by (auto simp add: streetviewable_location_def latlon_string_def split: option.splits)

theorem missing_field_falls_back_witness:
  "streetviewable_location print_value (\<lambda>a k. Inl RequestException) default_search_format
      [''lat'' \<mapsto> PyInt 40, ''lon'' \<mapsto> PyInt (- 73)] ''key'' = (Inr ''40,-73'', []) \<and>
   streetviewable_location print_value (\<lambda>a k. Inl RequestException) default_search_format
      [''address'' \<mapsto> PyStr ''1 Main St'', ''city'' \<mapsto> PyStr ''Springfield''] ''key''
     = (Inl KeyError, [])"
  using missing_field_falls_back [of "''address''" default_search_format
           "[''lat'' \<mapsto> PyInt 40, ''lon'' \<mapsto> PyInt (- 73)]" "PyInt 40" "PyInt (- 73)"
           print_value "\<lambda>a k. Inl RequestException" "''key''"]
        missing_field_falls_back [of "''state''" default_search_format
           "[''address'' \<mapsto> PyStr ''1 Main St'', ''city'' \<mapsto> PyStr ''Springfield'']"
           "PyInt 40" "PyInt (- 73)" print_value "\<lambda>a k. Inl RequestException" "''key''"]
  by (simp add: default_search_format_def str_int_examples)

text \<open>
  C5, as stated, fails: a record with an address and a city but no state, and no
  coordinates, makes \<open>streetviewable_location\<close> raise KeyError.
\<close>

theorem missing_field_raises_counterexample:
  "streetviewable_location print_value (\<lambda>a k. Inr (geocoded_at 40 (- 73)))
      default_search_format
      [''id'' \<mapsto> PyInt 5, ''address'' \<mapsto> PyStr ''1 Main St'', ''city'' \<mapsto> PyStr ''Springfield'']
      ''key''
   = (Inl KeyError, [])"
  by (simp add: streetviewable_location_def default_search_format_def latlon_string_def)

text \<open>
  When the keys \<open>lat\<close> or \<open>lon\<close> are not in the record at all (the table has no such
  column), the handler of line 218 does its work: with no \<open>lat\<close> key, or a numeric
  \<open>lat\<close> and no \<open>lon\<close> key, the result is the formatted address and no request is made.
\<close>

lemma address_without_coordinate_keys:
  assumes "format_str fmt sf l = Inr address"
    and "l ''lat'' = None \<or> (\<exists>v. l ''lat'' = Some v \<and> is_number v) \<and> l ''lon'' = None"
  shows "streetviewable_location fmt requests_get sf l key = (Inr address, [])"
proof -
  have "comfort_zone l = Inl KeyError"
    using assms(2) by (auto simp add: comfort_zone_def lot_plus_def py_add_number Let_def)
  with assms(1) show ?thesis by (simp add: streetviewable_location_def)
qed

lemma address_without_coordinate_keys_example:
  "streetviewable_location print_value (\<lambda>a k. Inr (geocoded_at 40 (- 73)))
      default_search_format example_lot_no_coords ''key''
     = (Inr ''1 Main St, Springfield IL'', [])"
  using address_without_coordinate_keys [of print_value default_search_format
          example_lot_no_coords "''1 Main St, Springfield IL''"
          "\<lambda>a k. Inr (geocoded_at 40 (- 73))" "''key''"]
  by (simp add: example_lot_address) (simp add: example_lot_no_coords_def)

text \<open>
  A \<open>lat\<close> key that is there and holds \<open>None\<close> is another matter: the subtraction of
  line 215 raises TypeError, which \<open>except KeyError\<close> lets through.
\<close>

lemma null_latitude_raises:
  assumes "format_str fmt sf l = Inr address" "l ''lat'' = Some PyNone"
  shows "streetviewable_location fmt requests_get sf l key = (Inl TypeError, [])"
  using assms by (simp add: streetviewable_location_def comfort_zone_def lot_plus_def)

lemma null_coords_lot_address:
  "format_str print_value default_search_format null_coords_lot
     = Inr ''1 Main St, Springfield IL''"
  by (simp add: default_search_format_def null_coords_lot_def)

text \<open>
  C6. A record without coordinates, as \<open>__init__\<close> loads it from a table whose \<open>lat\<close>
  and \<open>lon\<close> columns are NULL, has both keys with the value \<open>None\<close>. Its address
  formats, and \<open>streetviewable_location\<close> does not return the formatted address: it
  raises TypeError (no request is made).
\<close>

theorem null_coordinates_raise:
  "init_lot null_coords_table None = Inr null_coords_lot \<and>
   format_str print_value default_search_format null_coords_lot
     = Inr ''1 Main St, Springfield IL'' \<and>
   streetviewable_location print_value (\<lambda>a k. Inr (geocoded_at 40 (- 73)))
      default_search_format null_coords_lot ''key''
     = (Inl TypeError, [])"
proof -
  have "init_lot null_coords_table None = Inr null_coords_lot"
    by (auto simp add: init_lot_def execute_query_def selection_def
          null_coords_table_def null_coords_lot_def)
  moreover have "null_coords_lot ''lat'' = Some PyNone"
    by (simp add: null_coords_lot_def)
  ultimately show ?thesis
    using null_coords_lot_address
      null_latitude_raises [OF null_coords_lot_address, of "\<lambda>a k. Inr (geocoded_at 40 (- 73))" "''key''"]
    by simp
qed

section \<open>Zoom level: results\<close>

text \<open>
  Latitudes strictly between the poles have a sine strictly between -1 and 1, so
  \<open>latRad\<close> returns there, and it grows with the latitude.
\<close>

lemma degrees_to_radians:
  fixes a b :: real
  shows "a < b \<Longrightarrow> a * pi / 180 < b * pi / 180" and "a \<le> b \<Longrightarrow> a * pi / 180 \<le> b * pi / 180"
  using pi_gt_zero by (simp_all add: divide_strict_right_mono divide_right_mono)

lemma sin_degrees_strict:
  assumes "- 90 < lat" "lat < 90"
  shows "- 1 < sin (lat * pi / 180) \<and> sin (lat * pi / 180) < 1"
proof -
  let ?x = "lat * pi / 180"
  have lo: "- (pi / 2) < ?x" using degrees_to_radians(1) [OF assms(1)] by simp
  have hi: "?x < pi / 2" using degrees_to_radians(1) [OF assms(2)] by simp
  have "sin (- (pi / 2)) < sin ?x"
    using lo hi by (intro sin_monotone_2pi) simp_all
  moreover have "sin ?x < sin (pi / 2)"
    using lo hi by (intro sin_monotone_2pi) simp_all
  ultimately show ?thesis by simp
qed

lemma sin_degrees_mono:
  assumes "- 90 < a" "a \<le> b" "b < 90"
  shows "sin (a * pi / 180) \<le> sin (b * pi / 180)"
proof -
  have "- (pi / 2) \<le> a * pi / 180" using degrees_to_radians(1) [OF assms(1)] by simp
  moreover have "a * pi / 180 \<le> b * pi / 180" using assms(2) by (rule degrees_to_radians(2))
  moreover have "b * pi / 180 \<le> pi / 2" using degrees_to_radians(1) [OF assms(3)] by simp
  ultimately show ?thesis by (rule sin_monotone_2pi_le)
qed

lemma ratio_mono:
  fixes s t :: real
  assumes "- 1 < s" "s \<le> t" "t < 1"
  shows "0 < (1 + s) / (1 - s) \<and> (1 + s) / (1 - s) \<le> (1 + t) / (1 - t)"
proof -
  have "0 < (1 + s) / (1 - s)" using assms by simp
  moreover have "(1 + s) * (1 - t) \<le> (1 + t) * (1 - s)" using assms by (simp add: algebra_simps)
  then have "(1 + s) / (1 - s) \<le> (1 + t) / (1 - t)"
    using assms by (simp add: frac_le_eq divide_le_0_iff field_simps)
  ultimately show ?thesis by simp
qed

lemma latRad_value:
  assumes "- 90 < lat" "lat < 90"
  shows "latRad lat =
         Inr (max (min (ln ((1 + sin (lat * pi / 180)) / (1 - sin (lat * pi / 180))) / 2) pi) (- pi) / 2)"
proof -
  have s: "- 1 < sin (lat * pi / 180) \<and> sin (lat * pi / 180) < 1"
    using assms by (rule sin_degrees_strict)
  then have "0 < (1 + sin (lat * pi / 180)) / (1 - sin (lat * pi / 180))" by simp
  then have "\<not> (1 + sin (lat * pi / 180)) / (1 - sin (lat * pi / 180)) \<le> 0" by (simp only: not_le)
  moreover have "1 - sin (lat * pi / 180) \<noteq> 0" using s by simp
  ultimately show ?thesis by (simp only: latRad_def Let_def if_False)
qed

lemma latRad_mono:
  assumes "- 90 < a" "a \<le> b" "b < 90"
  shows "\<exists>ra rb. latRad a = Inr ra \<and> latRad b = Inr rb \<and> ra \<le> rb"
proof -
  let ?s = "sin (a * pi / 180)" and ?t = "sin (b * pi / 180)"
  have a: "- 90 < a" "a < 90" and b: "- 90 < b" "b < 90" using assms by simp_all
  have "- 1 < ?s" using sin_degrees_strict [OF a] by simp
  moreover have "?s \<le> ?t" using assms by (rule sin_degrees_mono)
  moreover have "?t < 1" using sin_degrees_strict [OF b] by simp
  ultimately have r: "0 < (1 + ?s) / (1 - ?s) \<and> (1 + ?s) / (1 - ?s) \<le> (1 + ?t) / (1 - ?t)"
    by (rule ratio_mono)
  then have "ln ((1 + ?s) / (1 - ?s)) \<le> ln ((1 + ?t) / (1 - ?t))"
    by (intro ln_mono) simp_all
  then have "max (min (ln ((1 + ?s) / (1 - ?s)) / 2) pi) (- pi) / 2
           \<le> max (min (ln ((1 + ?t) / (1 - ?t)) / 2) pi) (- pi) / 2"
    by (simp add: max_def min_def)
  with latRad_value [OF a] latRad_value [OF b] show ?thesis by blast
qed

lemma zoom_value:
  assumes "0 < mapPx" "0 < fraction"
  shows "zoom mapPx 256 fraction = Inr \<lfloor>ln (mapPx / 256 / fraction) / ln 2\<rfloor>"
  using assms by (simp add: zoom_def not_le)

lemma zoom_result_positive:
  assumes "0 < mapPx" "zoom mapPx 256 fraction = Inr z"
  shows "0 < fraction"
proof (rule ccontr)
  assume "\<not> 0 < fraction"
  then have "fraction = 0 \<or> mapPx / 256 / fraction \<le> 0"
    using assms(1) by (auto simp add: divide_le_0_iff not_less)
  then show False using assms(2) by (auto simp add: zoom_def split: if_splits)
qed

lemma zoom_antimono:
  fixes mapPx f1 f2 :: real
  assumes "0 < mapPx" "0 < f1" "f1 \<le> f2"
  shows "\<lfloor>ln (mapPx / 256 / f2) / ln 2\<rfloor> \<le> \<lfloor>ln (mapPx / 256 / f1) / ln 2\<rfloor>"
proof -
  have "mapPx / 256 / f2 \<le> mapPx / 256 / f1"
    using assms by (simp add: frac_le)
  moreover have "0 < mapPx / 256 / f2" using assms by simp
  ultimately have "ln (mapPx / 256 / f2) \<le> ln (mapPx / 256 / f1)" by (rule ln_mono)
  moreover have "0 < ln (2::real)" by simp
  ultimately have "ln (mapPx / 256 / f2) / ln 2 \<le> ln (mapPx / 256 / f1) / ln 2"
    by (simp add: divide_right_mono)
  then show ?thesis by (rule floor_mono)
qed

text \<open>What \<open>calculate_zoom\<close> returns once both \<open>latRad\<close> values are known.\<close>

lemma calculate_zoom_fractions:
  assumes "latRad b3 = Inr r3" "latRad b1 = Inr r1" "b0 \<le> b2" "0 < w" "0 < h"
    and "calculate_zoom (b0, b1, b2, b3) (w, h) = Inr z"
  shows "0 < (r3 - r1) / pi \<and> 0 < (b2 - b0) / 360"
proof -
  obtain zlat zlng where "zoom h 256 ((r3 - r1) / pi) = Inr zlat"
      and "zoom w 256 ((b2 - b0) / 360) = Inr zlng"
    using assms(1,2,3,6)
    by (auto simp add: calculate_zoom_def Let_def not_less split: sum.splits if_splits)
  then show ?thesis using assms(4,5) zoom_result_positive by blast
qed

lemma calculate_zoom_value:
  assumes "latRad b3 = Inr r3" "latRad b1 = Inr r1" "b0 \<le> b2" "0 < w" "0 < h"
    and "0 < (r3 - r1) / pi" "0 < (b2 - b0) / 360"
  shows "calculate_zoom (b0, b1, b2, b3) (w, h) =
         Inr (min (min \<lfloor>ln (h / 256 / ((r3 - r1) / pi)) / ln 2\<rfloor>
                       \<lfloor>ln (w / 256 / ((b2 - b0) / 360)) / ln 2\<rfloor>) 20)"
proof -
  have "\<not> b2 - b0 < 0" using assms(3) by simp
  then show ?thesis
    using assms(1,2) zoom_value [OF assms(5,6)] zoom_value [OF assms(4,7)]
    by (simp add: calculate_zoom_def Let_def)
qed

lemma calculate_zoom_monotone:
  assumes "X0 \<le> x0" "x0 \<le> x1" "x1 \<le> X1"
    and "- 90 < Y0" "Y0 \<le> y0" "y0 \<le> y1" "y1 \<le> Y1" "Y1 < 90"
    and "0 < w" "0 < h"
    and "calculate_zoom (x0, y0, x1, y1) (w, h) = Inr z"
  shows "\<exists>Z. calculate_zoom (X0, Y0, X1, Y1) (w, h) = Inr Z \<and> Z \<le> z"
proof -
  have "y0 < 90" "- 90 < y1" using assms(4-8) by simp_all
  obtain R0 r0 where lo: "latRad Y0 = Inr R0" "latRad y0 = Inr r0" "R0 \<le> r0"
    using latRad_mono [OF assms(4,5) \<open>y0 < 90\<close>] by blast
  obtain r1 R1 where hi: "latRad y1 = Inr r1" "latRad Y1 = Inr R1" "r1 \<le> R1"
    using latRad_mono [OF \<open>- 90 < y1\<close> assms(7,8)] by blast
  have inner: "0 < (r1 - r0) / pi \<and> 0 < (x1 - x0) / 360"
    using hi(1) lo(2) assms(2,9,10,11) by (rule calculate_zoom_fractions)
  have lat: "(r1 - r0) / pi \<le> (R1 - R0) / pi"
    using lo(3) hi(3) by (simp add: divide_right_mono)
  have lng: "(x1 - x0) / 360 \<le> (X1 - X0) / 360"
    using assms(1,3) by simp
  have outer: "0 < (R1 - R0) / pi" "0 < (X1 - X0) / 360"
    using inner lat lng by linarith+
  have "X0 \<le> X1" using assms(1-3) by simp
  note Z = calculate_zoom_value [OF hi(2) lo(1) \<open>X0 \<le> X1\<close> assms(9,10) outer]
  have z: "z = min (min \<lfloor>ln (h / 256 / ((r1 - r0) / pi)) / ln 2\<rfloor>
                        \<lfloor>ln (w / 256 / ((x1 - x0) / 360)) / ln 2\<rfloor>) 20"
    using calculate_zoom_value [OF hi(1) lo(2) assms(2,9,10)] inner assms(11) by simp
  have "\<lfloor>ln (h / 256 / ((R1 - R0) / pi)) / ln 2\<rfloor> \<le> \<lfloor>ln (h / 256 / ((r1 - r0) / pi)) / ln 2\<rfloor>"
    using assms(10) inner lat by (intro zoom_antimono) simp_all
  moreover have "\<lfloor>ln (w / 256 / ((X1 - X0) / 360)) / ln 2\<rfloor> \<le> \<lfloor>ln (w / 256 / ((x1 - x0) / 360)) / ln 2\<rfloor>"
    using assms(9) inner lng by (intro zoom_antimono) simp_all
  ultimately show ?thesis unfolding Z z by (simp add: min_le_iff_disj)
qed

text \<open>
  The zoom of a small square around the origin, from the bounds \<open>sin x \<le> x\<close>,
  \<open>ln x \<le> x - 1\<close> and \<open>pi < 4\<close>.
\<close>

lemma floor_log2_ge:
  fixes x :: real
  assumes "2 ^ n \<le> x"
  shows "int n \<le> \<lfloor>ln x / ln 2\<rfloor>"
proof -
  have "ln ((2::real) ^ n) \<le> ln x" using assms by (intro ln_mono) simp_all
  then have "real n * ln 2 \<le> ln x" by (simp add: ln_realpow)
  then have "real n \<le> ln x / ln 2" by (simp add: pos_le_divide_eq)
  then show ?thesis by (simp add: le_floor_iff)
qed

lemma floor_log2_le:
  fixes x :: real
  assumes "0 < x" "x < 2 ^ Suc n"
  shows "\<lfloor>ln x / ln 2\<rfloor> \<le> int n"
proof -
  have "ln x < ln ((2::real) ^ Suc n)" using assms by (subst ln_less_cancel_iff) simp_all
  then have "ln x < real (Suc n) * ln 2" by (simp only: ln_realpow)
  then have "ln x / ln 2 < real (Suc n)" by (simp add: pos_divide_less_eq)
  then show ?thesis by (simp add: floor_le_iff)
qed

lemma latRad_small:
  assumes "0 < a" "a \<le> 13 / 10"
  defines "L \<equiv> ln ((1 + sin (a * pi / 180)) / (1 - sin (a * pi / 180)))"
  shows "latRad a = Inr (L / 4)" and "latRad (- a) = Inr (- L / 4)"
    and "0 < L" and "L / (2 * pi) \<le> a / (180 - 4 * a)"
proof -
  let ?t = "a * pi / 180" and ?s = "sin (a * pi / 180)"
  have t0: "0 < ?t" using assms(1) by simp
  have "a * pi < 13 / 10 * 4" using assms(1,2) pi_less_4 pi_gt_zero
    by (intro mult_le_less_imp_less) simp_all
  then have t1: "?t < 4 * a / 180 \<and> ?t < 1 / 30"
    using assms(1,2) pi_less_4 by (simp add: field_simps)
  have tpi: "?t < pi" using t1 pi_ge_two by linarith
  have s0: "0 < ?s" using t0 tpi by (rule sin_gt_zero)
  have st: "?s \<le> ?t" using t0 by (intro sin_x_le_x) simp
  have s1: "?s < 1 / 30" using st t1 by linarith
  have ratio: "1 < (1 + ?s) / (1 - ?s)" using s0 s1 by (simp add: field_simps)
  then show L0: "0 < L" unfolding L_def by (simp add: ln_gt_zero)
  have "L \<le> (1 + ?s) / (1 - ?s) - 1"
    unfolding L_def using ratio by (intro ln_le_minus_one) simp
  also have "\<dots> = 2 * ?s / (1 - ?s)" using s1 by (simp add: field_simps)
  finally have Ls: "L \<le> 2 * ?s / (1 - ?s)" .
  have "0 \<le> ?t" "0 < 1 - ?t" "1 - ?t \<le> 1 - ?s" using t0 t1 st by linarith+
  with st have "?s / (1 - ?s) \<le> ?t / (1 - ?t)" by (intro frac_le)
  then have Lt: "L \<le> 2 * (?t / (1 - ?t))" using Ls by simp
  have "?t / (1 - ?t) < 1" using t0 t1 by (simp add: field_simps)
  then have Lpi: "L / 2 < pi" using Lt pi_ge_two by linarith
  have a90: "- 90 < a" "a < 90" "- 90 < - a" "- a < 90" using assms(1,2) by simp_all
  show "latRad a = Inr (L / 4)"
    using latRad_value [OF a90(1,2)] L0 Lpi by (simp add: L_def [symmetric] max_def min_def)
  have "(1 + sin (- a * pi / 180)) / (1 - sin (- a * pi / 180)) = inverse ((1 + ?s) / (1 - ?s))"
    by (simp add: field_simps)
  then have "ln ((1 + sin (- a * pi / 180)) / (1 - sin (- a * pi / 180))) = - L"
    unfolding L_def by (simp only: ln_inverse)
  then show "latRad (- a) = Inr (- L / 4)"
    using latRad_value [OF a90(3,4)] L0 Lpi by (simp add: max_def min_def)
  have "L / (2 * pi) \<le> (2 * (?t / (1 - ?t))) / (2 * pi)"
    using Lt by (intro divide_right_mono) simp_all
  also have "\<dots> = (a / 180) / (1 - ?t)" by simp
  also have "\<dots> \<le> (a / 180) / (1 - 4 * a / 180)"
  proof (rule divide_left_mono)
    show "1 - 4 * a / 180 \<le> 1 - ?t" using t1 by linarith
    show "0 \<le> a / 180" using assms(1) by simp
    have "0 < 1 - 4 * a / 180" using assms(2) by simp
    with \<open>0 < 1 - ?t\<close> show "0 < (1 - ?t) * (1 - 4 * a / 180)" by (intro mult_pos_pos)
  qed
  also have "\<dots> = a / (180 - 4 * a)" using assms(2) by (simp add: field_simps)
  finally show "L / (2 * pi) \<le> a / (180 - 4 * a)" .
qed

lemma calculate_zoom_small_square:
  assumes "7 / 10 \<le> a" "a \<le> 13 / 10"
  shows "calculate_zoom (- a, - a, a, a) (1000, 1000) = Inr 9"
proof -
  define L where "L = ln ((1 + sin (a * pi / 180)) / (1 - sin (a * pi / 180)))"
  have a0: "0 < a" using assms(1) by simp
  note lr = latRad_small [OF a0 assms(2), folded L_def]
  have frac: "(L / 4 - - L / 4) / pi = L / (2 * pi)" by simp
  have fpos: "0 < L / (2 * pi)" using lr(3) by simp
  have fle: "L / (2 * pi) \<le> 1000 / 256 / 512"
  proof -
    have "a / (180 - 4 * a) \<le> 1000 / 256 / 512" using assms by (simp add: field_simps)
    with lr(4) show ?thesis by linarith
  qed
  have "(2::real) ^ 9 \<le> 1000 / 256 / (L / (2 * pi))"
    using fpos fle by (simp add: field_simps)
  then have latz: "9 \<le> \<lfloor>ln (1000 / 256 / (L / (2 * pi))) / ln 2\<rfloor>"
    using floor_log2_ge [of 9 "1000 / 256 / (L / (2 * pi))"] by simp
  have lx: "(2::real) ^ 9 \<le> 1000 / 256 / ((a - - a) / 360)" "1000 / 256 / ((a - - a) / 360) < 2 ^ Suc 9"
    "0 < 1000 / 256 / ((a - - a) / 360)"
    using assms a0 by (simp_all add: field_simps)
  have lngz: "\<lfloor>ln (1000 / 256 / ((a - - a) / 360)) / ln 2\<rfloor> = 9"
    using floor_log2_ge [OF lx(1)] floor_log2_le [OF lx(3,2)] by linarith
  have "calculate_zoom (- a, - a, a, a) (1000, 1000) =
        Inr (min (min \<lfloor>ln (1000 / 256 / ((L / 4 - - L / 4) / pi)) / ln 2\<rfloor>
                      \<lfloor>ln (1000 / 256 / ((a - - a) / 360)) / ln 2\<rfloor>) 20)"
    using lr(1,2) a0 fpos by (intro calculate_zoom_value) (simp_all)
  then show ?thesis using latz unfolding frac lngz by simp
qed

text \<open>
  C7, as the code has it. The box (-1,-1,1,1) at 1000 by 1000 has zoom 9, which is at
  most 20. For two well-formed boxes with latitudes strictly between -90 and 90, one
  containing the other, and positive map dimensions: when the zoom of the smaller box is
  computed, so is the zoom of the larger one, and it is not greater (it may be equal).
\<close>

theorem calculate_zoom_fixed_and_monotone:
  "calculate_zoom (- 1, - 1, 1, 1) (1000, 1000) = Inr 9 \<and> (9::int) \<le> 20 \<and>
   (X0 \<le> x0 \<and> x0 \<le> x1 \<and> x1 \<le> X1 \<and>
    - 90 < Y0 \<and> Y0 \<le> y0 \<and> y0 \<le> y1 \<and> y1 \<le> Y1 \<and> Y1 < 90 \<and>
    0 < w \<and> 0 < h \<and> calculate_zoom (x0, y0, x1, y1) (w, h) = Inr z
    \<longrightarrow> (\<exists>Z. calculate_zoom (X0, Y0, X1, Y1) (w, h) = Inr Z \<and> Z \<le> z))"
  using calculate_zoom_small_square [of 1] calculate_zoom_monotone [of X0 x0 x1 X1 Y0 y0 y1 Y1 w h z]
  by simp

theorem calculate_zoom_fixed_and_monotone_witness:
  "calculate_zoom (- 1, - 1, 1, 1) (1000, 1000) = Inr 9 \<and>
   (\<exists>Z. calculate_zoom (- 2, - 3, 4, 5) (1000, 1000) = Inr Z \<and> Z \<le> 9)"
  using calculate_zoom_fixed_and_monotone [of "- 2" "- 1" 1 4 "- 3" "- 1" 1 5 1000 1000 9]
  by simp

text \<open>
  C7, as stated, fails: the square of side 2.4 around the origin contains the square of
  side 2 and is larger in both dimensions, and both have zoom 9.
\<close>

theorem calculate_zoom_not_strict_counterexample:
  "calculate_zoom (- (6 / 5), - (6 / 5), 6 / 5, 6 / 5) (1000, 1000) = Inr 9 \<and>
   calculate_zoom (- 1, - 1, 1, 1) (1000, 1000) = Inr 9"
  using calculate_zoom_small_square [of "6 / 5"] calculate_zoom_small_square [of 1]
  by simp

end
